theory Spec2Isabelle
  imports Complex_Main
begin

section \<open>Python values, exceptions and log records\<close>

text \<open>
  The plugin interface of \<^verbatim>\<open>threeML/plugin_prototype.py\<close> inspects its arguments at run
  time (\<^verbatim>\<open>isinstance(x, dict)\<close>, \<^verbatim>\<open>len(spec)\<close>), so arguments are values of a small
  universe of Python objects. A dict is an association list in insertion order;
  \<open>PyMappingProxy\<close> is a \<^verbatim>\<open>types.MappingProxyType\<close>, a read-only mapping that is not a
  dict; an instance of \<^verbatim>\<open>astromodels.IndependentVariable\<close> is a constructor of its own
  because the tag setter tests for it; every other object is \<open>PyObject\<close> with its class
  name.
\<close>

datatype pyval =
    PyNone
  | PyBool bool
  | PyInt int
  | PyFloat rat
  | PyStr string
  | PyTuple "pyval list"
  | PyList "pyval list"
  | PyDict "(pyval \<times> pyval) list"
  | PyMappingProxy "(pyval \<times> pyval) list"
  | PyIndependentVariable string
  | PyObject string

text \<open>
  Exceptions are values. \<open>AssertionError\<close>, \<open>ValueError\<close> and \<open>TypeError\<close> are raised
  by the source; \<open>ConfigurationError\<close>, \<open>NotComputedError\<close> and \<open>RuntimeError\<close> belong to
  the error taxonomy of the time-binning interface; \<open>OSError\<close> is what a failing
  \<^verbatim>\<open>mkdir\<close> raises.
\<close>

datatype error =
    AssertionError string
  | ValueError string
  | TypeError string
  | RuntimeError string
  | ConfigurationError string
  | NotComputedError string
  | OSError string

text \<open>The built-in exception class an error is an instance of.\<close>

fun builtin_class :: "error \<Rightarrow> string" where
  "builtin_class (AssertionError _) = ''AssertionError''"
| "builtin_class (ValueError _) = ''ValueError''"
| "builtin_class (TypeError _) = ''TypeError''"
| "builtin_class (RuntimeError _) = ''RuntimeError''"
| "builtin_class (ConfigurationError _) = ''RuntimeError''"
| "builtin_class (NotComputedError _) = ''AttributeError''"
| "builtin_class (OSError _) = ''OSError''"

text \<open>What a call hands to the module logger \<^verbatim>\<open>log\<close>.\<close>

datatype log_record = LogError string | LogWarning string

fun isinstance_dict :: "pyval \<Rightarrow> bool" where
  "isinstance_dict (PyDict _) = True"
| "isinstance_dict _ = False"

text \<open>
  \<^verbatim>\<open>isinstance(x, collections.abc.Mapping)\<close>: what Python calls a mapping. The source
  never makes this test; it is here to compare it with the test for a dict.
\<close>

fun isinstance_Mapping :: "pyval \<Rightarrow> bool" where
  "isinstance_Mapping (PyDict _) = True"
| "isinstance_Mapping (PyMappingProxy _) = True"
| "isinstance_Mapping _ = False"

fun isinstance_IndependentVariable :: "pyval \<Rightarrow> bool" where
  "isinstance_IndependentVariable (PyIndependentVariable _) = True"
| "isinstance_IndependentVariable _ = False"

text \<open>
  \<^verbatim>\<open>len(x)\<close> and iteration, for the objects that have them: the elements that
  \<^verbatim>\<open>a, b = x\<close> unpacks. \<open>None\<close> stands for an object without \<^verbatim>\<open>__len__\<close>, on which
  \<^verbatim>\<open>len\<close> raises \<^verbatim>\<open>TypeError\<close>. A string yields its characters, a dict or a mapping
  proxy its keys.
\<close>

fun elements :: "pyval \<Rightarrow> pyval list option" where
  "elements (PyTuple xs) = Some xs"
| "elements (PyList xs) = Some xs"
| "elements (PyStr s) = Some (map (\<lambda>c. PyStr [c]) s)"
| "elements (PyDict kvs) = Some (map fst kvs)"
| "elements (PyMappingProxy kvs) = Some (map fst kvs)"
| "elements _ = None"

subsection \<open>\<^verbatim>\<open>str.lower\<close>\<close>

text \<open>
  \<^verbatim>\<open>name.lower()\<close> on the letters \<open>A\<close> to \<open>Z\<close>; every other character is left as it
  is. The constructor only compares the result with \<^verbatim>\<open>"total"\<close>, and no character
  outside \<open>A\<close> to \<open>Z\<close> is lowered to one of \<open>t\<close>, \<open>o\<close>, \<open>a\<close>, \<open>l\<close>.
\<close>

definition lower_char :: "char \<Rightarrow> char" where
  "lower_char c =
     (case map_of (zip ''ABCDEFGHIJKLMNOPQRSTUVWXYZ'' ''abcdefghijklmnopqrstuvwxyz'') c of
        Some d \<Rightarrow> d
      | None \<Rightarrow> c)"

definition lower :: "string \<Rightarrow> string" where
  "lower s = map lower_char s"

section \<open>The plugin prototype\<close>

text \<open>The three private attributes \<^verbatim>\<open>_name\<close>, \<^verbatim>\<open>_nuisance_parameters\<close>, \<^verbatim>\<open>_tag\<close>.\<close>

record plugin =
  attr_name :: string
  attr_nuisance_parameters :: pyval
  attr_tag :: pyval

text \<open>
  Modelled from the spec: \<^verbatim>\<open>invalid_plugin_name\<close> of \<^verbatim>\<open>threeML.io.logging\<close>, which is
  not among the sources. The spec asks for a detector name that is a valid identifier and
  files a non-identifier name under the \<^verbatim>\<open>AssertionError\<close> class; an identifier is a
  letter or underscore followed by letters, digits and underscores.
\<close>

definition is_identifier_start :: "char \<Rightarrow> bool" where
  "is_identifier_start c \<longleftrightarrow>
     c \<in> set ''abcdefghijklmnopqrstuvwxyzABCDEFGHIJKLMNOPQRSTUVWXYZ_''"

definition is_identifier_char :: "char \<Rightarrow> bool" where
  "is_identifier_char c \<longleftrightarrow> is_identifier_start c \<or> c \<in> set ''0123456789''"

fun is_valid_identifier :: "string \<Rightarrow> bool" where
  "is_valid_identifier [] = False"
| "is_valid_identifier (c # cs) \<longleftrightarrow> is_identifier_start c \<and> list_all is_identifier_char cs"

definition invalid_plugin_name :: "string \<Rightarrow> log_record list \<times> error option" where
  "invalid_plugin_name nm =
     (if is_valid_identifier nm then ([], None)
      else ([LogError ''not a valid name for a plugin''],
            Some (AssertionError ''not a valid name for a plugin'')))"

text \<open>
  \<^verbatim>\<open>PluginPrototype.__init__\<close>. A raise leaves the caller without an instance, so the
  result is an error or the new instance, with the records logged on the way.
\<close>

definition init :: "string \<Rightarrow> pyval \<Rightarrow> log_record list \<times> (error + plugin)" where
  "init nm nuisance =
     (case invalid_plugin_name nm of
        (lg, Some e) \<Rightarrow> (lg, Inl e)
      | (lg, None) \<Rightarrow>
          if lower nm = ''total'' then
            (lg @ [LogError ''Sorry, you cannot use 'total' as name for a plugin.''],
             Inl (AssertionError ''Sorry, you cannot use 'total' as name for a plugin.''))
          else if \<not> isinstance_dict nuisance then
            (lg @ [LogError ''nuisance_parameters are not a dict and are invalid!''],
             Inl (AssertionError ''nuisance_parameters are not a dict and are invalid!''))
          else
            (lg, Inr \<lparr>attr_name = nm, attr_nuisance_parameters = nuisance,
                      attr_tag = PyNone\<rparr>))"

text \<open>The properties \<^verbatim>\<open>name\<close> and \<^verbatim>\<open>nuisance_parameters\<close>, and \<^verbatim>\<open>get_name\<close>.\<close>

definition name :: "plugin \<Rightarrow> string" where
  "name self = attr_name self"

definition nuisance_parameters :: "plugin \<Rightarrow> pyval" where
  "nuisance_parameters self = attr_nuisance_parameters self"

definition get_name :: "plugin \<Rightarrow> log_record list \<times> string" where
  "get_name self =
     ([LogWarning ''Do not use get_name() for plugins, use the .name property''], name self)"

text \<open>
  A method returns the records it logged, the exception it raised if any, and the
  instance as the call left it.
\<close>

definition update_nuisance_parameters ::
  "pyval \<Rightarrow> plugin \<Rightarrow> log_record list \<times> error option \<times> plugin" where
  "update_nuisance_parameters new_nuisance_parameters self =
     (if \<not> isinstance_dict new_nuisance_parameters then
        ([LogError ''nuisance_parameters are not a dict and are invalid!''],
         Some (AssertionError ''nuisance_parameters are not a dict and are invalid!''),
         self)
      else
        ([], None, self\<lparr>attr_nuisance_parameters := new_nuisance_parameters\<rparr>))"

text \<open>The getter and the setter of the property \<^verbatim>\<open>tag\<close>.\<close>

definition get_tag :: "plugin \<Rightarrow> pyval" where
  "get_tag self = attr_tag self"

definition tag_warning :: "pyval \<Rightarrow> log_record list" where
  "tag_warning independent_variable =
     (if \<not> isinstance_IndependentVariable independent_variable then
        [LogWarning ''When tagging a plugin, you should use an IndependentVariable instance.'']
      else [])"

definition set_tag :: "pyval \<Rightarrow> plugin \<Rightarrow> log_record list \<times> error option \<times> plugin" where
  "set_tag spec self =
     (case elements spec of
        None \<Rightarrow> ([], Some (TypeError ''object has no len()''), self)
      | Some [independent_variable, start] \<Rightarrow>
          (tag_warning independent_variable, None,
           self\<lparr>attr_tag := PyTuple [independent_variable, start, PyNone]\<rparr>)
      | Some [independent_variable, start, end] \<Rightarrow>
          (tag_warning independent_variable, None,
           self\<lparr>attr_tag := PyTuple [independent_variable, start, end]\<rparr>)
      | Some _ \<Rightarrow>
          ([],
           Some (ValueError ''Tag specification should be (independent_variable, start[, end])''),
           self))"

section \<open>The user's configuration directory\<close>

text \<open>
  \<^verbatim>\<open>threeML/io/package_data.py\<close>. A path is its list of components; \<^verbatim>\<open>Path(s)\<close> splits
  a string at the slashes, keeping a leading slash as the root component, and \<^verbatim>\<open>p / c\<close>
  appends a component.
\<close>

type_synonym path = "string list"

fun split_slash :: "string \<Rightarrow> string \<Rightarrow> string list" where
  "split_slash acc [] = [acc]"
| "split_slash acc (c # cs) =
     (if c = CHR ''/'' then acc # split_slash [] cs else split_slash (acc @ [c]) cs)"

definition Path :: "string \<Rightarrow> path" where
  "Path s =
     (if s \<noteq> [] \<and> hd s = CHR ''/'' then [''/''] else []) @
     filter (\<lambda>c. c \<noteq> [] \<and> c \<noteq> ''.'') (split_slash [] s)"

definition path_div :: "path \<Rightarrow> string \<Rightarrow> path" where
  "path_div p c = p @ [c]"

text \<open>
  The file system is whatever the operating system makes of it: \<^verbatim>\<open>Path.exists\<close> reads a
  state of type \<open>'fs\<close>, \<^verbatim>\<open>Path.mkdir(parents=True)\<close> returns a new one or raises.
\<close>

record 'fs filesystem =
  path_exists :: "'fs \<Rightarrow> path \<Rightarrow> bool"
  mkdir_parents :: "'fs \<Rightarrow> path \<Rightarrow> error + 'fs"

text \<open>
  \<^verbatim>\<open>get_path_of_user_config\<close>. \<open>custom_config_path\<close> is the module constant
  \<^verbatim>\<open>_custom_config_path = os.environ.get("THREEML_CONFIG")\<close>, \<open>home\<close> is what
  \<^verbatim>\<open>Path().home()\<close> returns. The two assignments to \<^verbatim>\<open>config_path\<close> follow one
  another as in the source: the second is not under an \<^verbatim>\<open>else\<close>.
\<close>

definition get_path_of_user_config ::
  "'fs filesystem \<Rightarrow> string option \<Rightarrow> path \<Rightarrow> 'fs \<Rightarrow> error + (path \<times> 'fs)" where
  "get_path_of_user_config os custom_config_path home fs =
     (let config_path =
            (case custom_config_path of Some c \<Rightarrow> Some (Path c) | None \<Rightarrow> None);
          config_path = path_div (path_div home ''.config'') ''threeML''
      in if \<not> path_exists os fs config_path then
           (case mkdir_parents os fs config_path of
              Inl e \<Rightarrow> Inl e
            | Inr fs' \<Rightarrow> Inr (config_path, fs'))
         else Inr (config_path, fs))"

text \<open>
  A file system for running the function: the set of the directories that exist, in
  which \<^verbatim>\<open>mkdir(parents=True)\<close> creates the directory and every ancestor of it.
\<close>

fun ancestors_and_self :: "path \<Rightarrow> path list" where
  "ancestors_and_self [] = []"
| "ancestors_and_self (c # cs) = [c] # map ((#) c) (ancestors_and_self cs)"

definition directories :: "(path set) filesystem" where
  "directories =
     \<lparr>path_exists = (\<lambda>fs p. p \<in> fs),
      mkdir_parents = (\<lambda>fs p. Inr (fs \<union> set (ancestors_and_self p)))\<rparr>"

section \<open>Time bins of the event data\<close>

text \<open>
  The plugin that bins time-tagged events (\<^verbatim>\<open>FermiGBMTTELike\<close>) is exercised by
  \<^verbatim>\<open>threeML/test/test_gbm.py\<close> but is not among the sources; this section follows the
  specification. Times are exact rationals.
\<close>

record time_bin =
  bin_start :: rat
  bin_stop :: rat

text \<open>
  Modelled from the spec: the fixed-width binner of the missing plugin. ``Bins =
  [start, start+dt), [start+dt, start+2dt), ... clipped to stop; the final partial bin is
  dropped if shorter than dt (only complete bins are retained)'': a bin is emitted as
  long as a whole one still fits below \<open>stop\<close>.
\<close>

function fixed_width_bins :: "rat \<Rightarrow> rat \<Rightarrow> rat \<Rightarrow> time_bin list" where
  "fixed_width_bins start stop dt =
     (if 0 < dt \<and> start + dt \<le> stop then
        \<lparr>bin_start = start, bin_stop = start + dt\<rparr> # fixed_width_bins (start + dt) stop dt
      else [])"
  by pat_completeness auto

termination
proof (relation "measure (\<lambda>(start, stop, dt). nat \<lceil>(stop - start) / dt\<rceil>)")
  show "wf (measure (\<lambda>(start, stop, dt). nat \<lceil>(stop - start) / dt\<rceil>))"
    by simp
next
  fix start stop dt :: rat
  assume a: "0 < dt \<and> start + dt \<le> stop"
  then have "(stop - (start + dt)) / dt = (stop - start) / dt - 1"
    by (simp add: field_simps)
  moreover from a have "1 \<le> (stop - start) / dt"
    by (simp add: field_simps)
  then have "1 \<le> \<lceil>(stop - start) / dt\<rceil>"
    by linarith
  ultimately show "((start + dt, stop, dt), (start, stop, dt))
      \<in> measure (\<lambda>(start, stop, dt). nat \<lceil>(stop - start) / dt\<rceil>)"
    by simp
qed

text \<open>
  Modelled from the spec: the instance state the binning interface caches. The bins are
  a derived artifact that is \<open>Unset\<close> (\<open>None\<close>) until a call of \<^verbatim>\<open>create_time_bins\<close> has
  succeeded.
\<close>

record tte =
  cached_bins :: "time_bin list option"

definition unbinned :: tte where
  "unbinned = \<lparr>cached_bins = None\<rparr>"

text \<open>
  The significance-adaptive and the Bayesian-blocks binner depend on the event data, on
  the fitted background and on floating-point statistics; they are taken as given
  functions of \<open>start\<close>, \<open>stop\<close> and their parameter. The significance binner fails
  with \<^verbatim>\<open>RuntimeError\<close> when no background fit exists.
\<close>

record binners =
  by_significance :: "rat \<Rightarrow> rat \<Rightarrow> rat \<Rightarrow> error + time_bin list"
  by_bayesblocks :: "rat \<Rightarrow> rat \<Rightarrow> rat \<Rightarrow> error + time_bin list"

text \<open>
  Modelled from the spec: the parameter each method requires (\<open>constant\<close>: \<open>dt > 0\<close>,
  \<open>significance\<close>: \<open>sigma > 0\<close>, \<open>bayesblocks\<close>: \<open>0 < p0 < 1\<close>); \<open>None\<close> for a name that
  is not a method.
\<close>

definition required_parameter :: "string \<Rightarrow> string option" where
  "required_parameter method =
     (if method = ''constant'' then Some ''dt''
      else if method = ''significance'' then Some ''sigma''
      else if method = ''bayesblocks'' then Some ''p0''
      else None)"

definition valid_parameter :: "string \<Rightarrow> rat \<Rightarrow> bool" where
  "valid_parameter method v \<longleftrightarrow>
     (if method = ''bayesblocks'' then 0 < v \<and> v < 1 else 0 < v)"

definition compute_bins ::
  "binners \<Rightarrow> string \<Rightarrow> rat \<Rightarrow> rat \<Rightarrow> rat \<Rightarrow> error + time_bin list" where
  "compute_bins b method start stop v =
     (if method = ''constant'' then Inr (fixed_width_bins start stop v)
      else if method = ''significance'' then by_significance b start stop v
      else by_bayesblocks b start stop v)"

text \<open>
  Modelled from the spec: \<^verbatim>\<open>create_time_bins(start, stop, method, **method_params)\<close> of
  the missing plugin. ``An unrecognized method value, or a method invoked with parameters
  not in its recognized set (e.g., constant without dt, significance without sigma), fails
  with RuntimeError naming the missing/invalid parameter -- this must happen before any
  computation. A successful call replaces any previously cached bins.'' The keyword
  arguments are an association list; the result is the exception raised, if any, and the
  instance as the call left it.
\<close>

definition create_time_bins ::
  "binners \<Rightarrow> rat \<Rightarrow> rat \<Rightarrow> string \<Rightarrow> (string \<times> rat) list \<Rightarrow> tte \<Rightarrow> error option \<times> tte" where
  "create_time_bins b start stop method method_params self =
     (case required_parameter method of
        None \<Rightarrow> (Some (ConfigurationError method), self)
      | Some p \<Rightarrow>
          (case filter (\<lambda>k. k \<noteq> p) (map fst method_params) of
             k # _ \<Rightarrow> (Some (ConfigurationError k), self)
           | [] \<Rightarrow>
               (case map_of method_params p of
                  None \<Rightarrow> (Some (ConfigurationError p), self)
                | Some v \<Rightarrow>
                    if \<not> valid_parameter method v then (Some (ConfigurationError p), self)
                    else
                      (case compute_bins b method start stop v of
                         Inl e \<Rightarrow> (Some e, self)
                       | Inr bs \<Rightarrow> (None, self\<lparr>cached_bins := Some bs\<rparr>)))))"

text \<open>
  Modelled from the spec: the attributes \<^verbatim>\<open>bins\<close> (the pair of the start times and the
  stop times, as the test unpacks it) and \<^verbatim>\<open>text_bins\<close> (one string per bin, rendered by
  \<open>render\<close>) of the missing plugin. ``Querying bins before create_time_bins has ever
  succeeded fails with AttributeError-class "not yet computed" error.''
\<close>

definition bins :: "tte \<Rightarrow> error + (rat list \<times> rat list)" where
  "bins self =
     (case cached_bins self of
        None \<Rightarrow> Inl (NotComputedError ''bins'')
      | Some bs \<Rightarrow> Inr (map bin_start bs, map bin_stop bs))"

definition text_bins :: "(time_bin \<Rightarrow> string) \<Rightarrow> tte \<Rightarrow> error + string list" where
  "text_bins render self =
     (case cached_bins self of
        None \<Rightarrow> Inl (NotComputedError ''text_bins'')
      | Some bs \<Rightarrow> Inr (map render bs))"

text \<open>
  A sequence of \<^verbatim>\<open>create_time_bins\<close> calls on one instance, each given by its arguments
  \<open>(start, stop, method, method_params)\<close>: the outcomes in order and the final instance.
\<close>

fun create_time_bins_calls ::
  "binners \<Rightarrow> (rat \<times> rat \<times> string \<times> (string \<times> rat) list) list \<Rightarrow> tte \<Rightarrow>
     error option list \<times> tte" where
  "create_time_bins_calls b [] self = ([], self)"
| "create_time_bins_calls b ((start, stop, method, method_params) # calls) self =
     (case create_time_bins b start stop method method_params self of
        (outcome, self') \<Rightarrow>
          (case create_time_bins_calls b calls self' of
             (outcomes, self'') \<Rightarrow> (outcome # outcomes, self'')))"

declare fixed_width_bins.simps [simp del]

section \<open>The plugin prototype: construction and attributes\<close>

lemma lower_char_letter:
  "lower_char c \<in> set ''total'' \<Longrightarrow> is_identifier_start c"
  by (auto simp add: lower_char_def is_identifier_start_def split: if_splits)

lemma lower_total_valid:
  assumes "lower nm = ''total''"
  shows "is_valid_identifier nm"
proof -
  from assms obtain c1 c2 c3 c4 c5 where nm: "nm = [c1, c2, c3, c4, c5]"
    and l: "lower_char c1 = CHR ''t''" "lower_char c2 = CHR ''o''" "lower_char c3 = CHR ''t''"
      "lower_char c4 = CHR ''a''" "lower_char c5 = CHR ''l''"
    by (auto simp add: lower_def map_eq_Cons_conv)
  have "is_identifier_start c" if "c \<in> set nm" for c
    using that nm l by (auto intro!: lower_char_letter)
  then show ?thesis
    by (simp add: nm is_identifier_char_def)
qed

lemma init_error_is_assertion:
  "init nm nuisance = (lg, Inl e) \<Longrightarrow> \<exists>msg. e = AssertionError msg"
  by (auto simp add: init_def invalid_plugin_name_def split: if_splits)

lemma init_returns_dict:
  "init nm nuisance = (lg, Inr self) \<Longrightarrow> isinstance_dict nuisance \<and> lower nm \<noteq> ''total''"
  by (auto simp add: init_def invalid_plugin_name_def split: if_splits)

text \<open>
  C5, as the code has it. For every argument \<open>v\<close> of \<^verbatim>\<open>update_nuisance_parameters\<close>:
  when \<open>v\<close> is not a dict (\<^verbatim>\<open>isinstance(v, dict)\<close> fails, as it also does for a mapping
  that is not a dict) the call raises an \<^verbatim>\<open>AssertionError\<close>; when \<open>v\<close> is a dict, the
  call raises nothing and the property \<^verbatim>\<open>nuisance_parameters\<close> then returns exactly
  \<open>v\<close>, whatever map the instance held before.
\<close>

theorem update_nuisance_parameters_replaces:
  "(\<not> isinstance_dict v \<longrightarrow>
      (\<exists>msg. fst (snd (update_nuisance_parameters v self)) = Some (AssertionError msg) \<and>
             builtin_class (AssertionError msg) = ''AssertionError'')) \<and>
   (isinstance_dict v \<longrightarrow>
      fst (snd (update_nuisance_parameters v self)) = None \<and>
      nuisance_parameters (snd (snd (update_nuisance_parameters v self))) = v)"
  by (simp add: update_nuisance_parameters_def nuisance_parameters_def)

theorem update_nuisance_parameters_replaces_witness:
  "\<not> isinstance_dict (PyList [PyInt 1]) \<and>
   fst (snd (update_nuisance_parameters (PyList [PyInt 1])
     \<lparr>attr_name = ''NAI3'', attr_nuisance_parameters = PyDict [], attr_tag = PyNone\<rparr>))
     = Some (AssertionError ''nuisance_parameters are not a dict and are invalid!'') \<and>
   isinstance_dict (PyDict [(PyStr ''cons_NAI3'', PyFloat 1)]) \<and>
   nuisance_parameters (snd (snd (update_nuisance_parameters
     (PyDict [(PyStr ''cons_NAI3'', PyFloat 1)])
     \<lparr>attr_name = ''NAI3'', attr_nuisance_parameters = PyDict [(PyStr ''bkg'', PyFloat 2)],
       attr_tag = PyNone\<rparr>)))
     = PyDict [(PyStr ''cons_NAI3'', PyFloat 1)]"
  using update_nuisance_parameters_replaces [of "PyList [PyInt 1]"
      "\<lparr>attr_name = ''NAI3'', attr_nuisance_parameters = PyDict [], attr_tag = PyNone\<rparr>"]
    update_nuisance_parameters_replaces [of "PyDict [(PyStr ''cons_NAI3'', PyFloat 1)]"
      "\<lparr>attr_name = ''NAI3'', attr_nuisance_parameters = PyDict [(PyStr ''bkg'', PyFloat 2)],
        attr_tag = PyNone\<rparr>"]
  by (simp add: update_nuisance_parameters_def)

text \<open>
  C5 as the claim words it, with ``mapping'' for ``dict'', does not hold: a mapping proxy
  is a mapping, yet the call raises the \<^verbatim>\<open>AssertionError\<close> and the instance keeps its
  old map.
\<close>

theorem update_nuisance_parameters_mapping_counterexample:
  "isinstance_Mapping (PyMappingProxy [(PyStr ''cons_NAI3'', PyFloat 1)]) \<and>
   fst (snd (update_nuisance_parameters (PyMappingProxy [(PyStr ''cons_NAI3'', PyFloat 1)])
     \<lparr>attr_name = ''NAI3'', attr_nuisance_parameters = PyDict [(PyStr ''bkg'', PyFloat 2)],
       attr_tag = PyNone\<rparr>))
     = Some (AssertionError ''nuisance_parameters are not a dict and are invalid!'') \<and>
   nuisance_parameters (snd (snd (update_nuisance_parameters
     (PyMappingProxy [(PyStr ''cons_NAI3'', PyFloat 1)])
     \<lparr>attr_name = ''NAI3'', attr_nuisance_parameters = PyDict [(PyStr ''bkg'', PyFloat 2)],
       attr_tag = PyNone\<rparr>)))
     = PyDict [(PyStr ''bkg'', PyFloat 2)]"
  by (simp add: update_nuisance_parameters_def nuisance_parameters_def)

text \<open>
  C6. Constructing a plugin with the name \<^verbatim>\<open>"total"\<close> raises an \<^verbatim>\<open>AssertionError\<close>; so
  does constructing one, under any name, whose \<^verbatim>\<open>nuisance_parameters\<close> argument is not a
  dict; and after a construction that succeeds the property \<^verbatim>\<open>name\<close> returns exactly
  the name given.
\<close>

theorem init_validation:
  "(\<exists>lg msg. init ''total'' nuisance = (lg, Inl (AssertionError msg)) \<and>
       builtin_class (AssertionError msg) = ''AssertionError'') \<and>
   (\<not> isinstance_dict nuisance \<longrightarrow>
      (\<exists>lg msg. init nm nuisance = (lg, Inl (AssertionError msg)))) \<and>
   (\<forall>lg self. init nm nuisance = (lg, Inr self) \<longrightarrow> name self = nm)"
proof (intro conjI impI allI)
  show "\<exists>lg msg. init ''total'' nuisance = (lg, Inl (AssertionError msg)) \<and>
      builtin_class (AssertionError msg) = ''AssertionError''"
    by (simp add: init_def invalid_plugin_name_def lower_def lower_char_def
        is_identifier_start_def is_identifier_char_def)
next
  assume nd: "\<not> isinstance_dict nuisance"
  obtain lg r where r: "init nm nuisance = (lg, r)"
    by (cases "init nm nuisance")
  show "\<exists>lg msg. init nm nuisance = (lg, Inl (AssertionError msg))"
  proof (cases r)
    case (Inl e)
    with r init_error_is_assertion show ?thesis by blast
  next
    case (Inr self)
    with r nd init_returns_dict show ?thesis by blast
  qed
next
  fix lg self
  assume "init nm nuisance = (lg, Inr self)"
  then show "name self = nm"
    by (auto simp add: init_def invalid_plugin_name_def name_def split: if_splits)
qed

theorem init_validation_witness:
  "\<not> isinstance_dict (PyList []) \<and>
   init ''NAI3'' (PyList []) =
     ([LogError ''nuisance_parameters are not a dict and are invalid!''],
      Inl (AssertionError ''nuisance_parameters are not a dict and are invalid!'')) \<and>
   init ''NAI3'' (PyDict []) =
     ([], Inr \<lparr>attr_name = ''NAI3'', attr_nuisance_parameters = PyDict [],
               attr_tag = PyNone\<rparr>) \<and>
   name \<lparr>attr_name = ''NAI3'', attr_nuisance_parameters = PyDict [], attr_tag = PyNone\<rparr>
     = ''NAI3''"
  using init_validation [of "PyList []" "''NAI3''"] init_validation [of "PyDict []" "''NAI3''"]
  by (simp add: init_def invalid_plugin_name_def lower_def lower_char_def
      is_identifier_start_def is_identifier_char_def name_def)

text \<open>
  C8. The reserved-name check of the constructor ignores case: for every name whose
  lower-case form is \<^verbatim>\<open>"total"\<close> (\<^verbatim>\<open>"Total"\<close>, \<^verbatim>\<open>"TOTAL"\<close>, ...) the construction logs
  and raises the \<^verbatim>\<open>AssertionError\<close> of the reserved name, whatever the second argument.
\<close>

theorem init_total_case_insensitive:
  assumes "lower nm = ''total''"
  shows "init nm nuisance =
      ([LogError ''Sorry, you cannot use 'total' as name for a plugin.''],
       Inl (AssertionError ''Sorry, you cannot use 'total' as name for a plugin.'')) \<and>
    builtin_class (AssertionError ''Sorry, you cannot use 'total' as name for a plugin.'')
      = ''AssertionError''"
  using assms lower_total_valid [OF assms]
  by (simp add: init_def invalid_plugin_name_def)

theorem init_total_case_insensitive_witness:
  "lower ''Total'' = ''total'' \<and> lower ''TOTAL'' = ''total'' \<and>
   snd (init ''Total'' (PyDict [])) =
     Inl (AssertionError ''Sorry, you cannot use 'total' as name for a plugin.'') \<and>
   snd (init ''TOTAL'' (PyDict [])) =
     Inl (AssertionError ''Sorry, you cannot use 'total' as name for a plugin.'')"
proof -
  have a: "lower ''Total'' = ''total''" and b: "lower ''TOTAL'' = ''total''"
    by (simp_all add: lower_def lower_char_def)
  from init_total_case_insensitive [OF a, of "PyDict []"]
    init_total_case_insensitive [OF b, of "PyDict []"] a b
  show ?thesis by simp
qed

text \<open>
  C9. \<^verbatim>\<open>update_nuisance_parameters\<close> is atomic on error: for every argument that is not a
  dict the call raises and leaves the instance as it was, so \<^verbatim>\<open>nuisance_parameters\<close>
  still returns the old map.
\<close>

theorem update_nuisance_parameters_atomic:
  assumes "\<not> isinstance_dict v"
  shows "fst (snd (update_nuisance_parameters v self)) \<noteq> None \<and>
     snd (snd (update_nuisance_parameters v self)) = self \<and>
     nuisance_parameters (snd (snd (update_nuisance_parameters v self)))
       = nuisance_parameters self"
  using assms by (simp add: update_nuisance_parameters_def)

theorem update_nuisance_parameters_atomic_witness:
  "\<not> isinstance_dict PyNone \<and>
   nuisance_parameters (snd (snd (update_nuisance_parameters PyNone
     \<lparr>attr_name = ''NAI3'', attr_nuisance_parameters = PyDict [(PyStr ''bkg'', PyFloat 2)],
       attr_tag = PyNone\<rparr>)))
     = PyDict [(PyStr ''bkg'', PyFloat 2)]"
proof -
  have h: "\<not> isinstance_dict PyNone" by simp
  from update_nuisance_parameters_atomic [OF h,
      of "\<lparr>attr_name = ''NAI3'', attr_nuisance_parameters = PyDict [(PyStr ''bkg'', PyFloat 2)],
        attr_tag = PyNone\<rparr>"] h
  show ?thesis by (simp add: nuisance_parameters_def)
qed

text \<open>
  C7. Setting \<^verbatim>\<open>tag\<close> with a spec of two elements \<open>(independent_variable, start)\<close>
  succeeds and the tag read afterwards is the triple \<open>(independent_variable, start, None)\<close>;
  with a spec of three elements \<open>(independent_variable, start, end)\<close> it succeeds and the
  tag read afterwards is that triple; with a spec of any other length it raises
  \<^verbatim>\<open>ValueError\<close> and the tag is the one the instance had before.
\<close>

theorem set_tag_spec:
  "(elements spec = Some [independent_variable, start] \<longrightarrow>
      fst (snd (set_tag spec self)) = None \<and>
      get_tag (snd (snd (set_tag spec self))) = PyTuple [independent_variable, start, PyNone]) \<and>
   (elements spec = Some [independent_variable, start, end] \<longrightarrow>
      fst (snd (set_tag spec self)) = None \<and>
      get_tag (snd (snd (set_tag spec self))) = PyTuple [independent_variable, start, end]) \<and>
   (\<forall>xs. elements spec = Some xs \<and> length xs \<noteq> 2 \<and> length xs \<noteq> 3 \<longrightarrow>
      (\<exists>msg. fst (snd (set_tag spec self)) = Some (ValueError msg) \<and>
             builtin_class (ValueError msg) = ''ValueError'') \<and>
      snd (snd (set_tag spec self)) = self \<and>
      get_tag (snd (snd (set_tag spec self))) = get_tag self)"
  by (auto simp add: set_tag_def get_tag_def split: list.splits)

theorem set_tag_spec_witness:
  "get_tag (snd (snd (set_tag (PyTuple [PyIndependentVariable ''time'', PyFloat 0])
     \<lparr>attr_name = ''NAI3'', attr_nuisance_parameters = PyDict [], attr_tag = PyNone\<rparr>)))
     = PyTuple [PyIndependentVariable ''time'', PyFloat 0, PyNone] \<and>
   get_tag (snd (snd (set_tag (PyTuple [PyIndependentVariable ''time'', PyFloat 0, PyFloat 10])
     \<lparr>attr_name = ''NAI3'', attr_nuisance_parameters = PyDict [], attr_tag = PyNone\<rparr>)))
     = PyTuple [PyIndependentVariable ''time'', PyFloat 0, PyFloat 10] \<and>
   set_tag (PyTuple [PyIndependentVariable ''time''])
     \<lparr>attr_name = ''NAI3'', attr_nuisance_parameters = PyDict [],
       attr_tag = PyTuple [PyIndependentVariable ''time'', PyFloat 0, PyNone]\<rparr>
     = ([], Some (ValueError ''Tag specification should be (independent_variable, start[, end])''),
        \<lparr>attr_name = ''NAI3'', attr_nuisance_parameters = PyDict [],
          attr_tag = PyTuple [PyIndependentVariable ''time'', PyFloat 0, PyNone]\<rparr>)"
  using set_tag_spec [of "PyTuple [PyIndependentVariable ''time'', PyFloat 0]"
      "PyIndependentVariable ''time''" "PyFloat 0"
      "\<lparr>attr_name = ''NAI3'', attr_nuisance_parameters = PyDict [], attr_tag = PyNone\<rparr>"]
    set_tag_spec [of "PyTuple [PyIndependentVariable ''time'', PyFloat 0, PyFloat 10]"
      "PyIndependentVariable ''time''" "PyFloat 0"
      "\<lparr>attr_name = ''NAI3'', attr_nuisance_parameters = PyDict [], attr_tag = PyNone\<rparr>"
      "PyFloat 10"]
    set_tag_spec [of "PyTuple [PyIndependentVariable ''time'']"
      "PyIndependentVariable ''time''" "PyFloat 0"
      "\<lparr>attr_name = ''NAI3'', attr_nuisance_parameters = PyDict [],
        attr_tag = PyTuple [PyIndependentVariable ''time'', PyFloat 0, PyNone]\<rparr>"]
  by (simp add: set_tag_def get_tag_def)

section \<open>The user's configuration directory: the custom path\<close>

text \<open>
  C10. \<^verbatim>\<open>get_path_of_user_config\<close> does the same for every value of
  \<^verbatim>\<open>THREEML_CONFIG\<close> as when the variable is unset: the path read from the environment
  is overwritten by \<^verbatim>\<open>home/.config/threeML\<close> before it is used, so every path the
  function returns is \<^verbatim>\<open>home/.config/threeML\<close>; it returns it when the directory exists
  or \<^verbatim>\<open>mkdir\<close> succeeds, as it always does in the file system \<open>directories\<close>.
\<close>

theorem user_config_ignores_custom_path:
  "get_path_of_user_config os custom_config_path home fs =
     get_path_of_user_config os None home fs \<and>
   (\<forall>p fs'. get_path_of_user_config os custom_config_path home fs = Inr (p, fs') \<longrightarrow>
      p = path_div (path_div home ''.config'') ''threeML'') \<and>
   (path_exists os fs (path_div (path_div home ''.config'') ''threeML'') \<longrightarrow>
      get_path_of_user_config os custom_config_path home fs =
        Inr (path_div (path_div home ''.config'') ''threeML'', fs)) \<and>
   (\<forall>fs'. \<not> path_exists os fs (path_div (path_div home ''.config'') ''threeML'') \<and>
      mkdir_parents os fs (path_div (path_div home ''.config'') ''threeML'') = Inr fs' \<longrightarrow>
      get_path_of_user_config os custom_config_path home fs =
        Inr (path_div (path_div home ''.config'') ''threeML'', fs')) \<and>
   (\<exists>dirs'. get_path_of_user_config directories custom_config_path home dirs =
      Inr (path_div (path_div home ''.config'') ''threeML'', dirs'))"
  by (auto simp add: get_path_of_user_config_def directories_def Let_def split: sum.splits)

theorem user_config_ignores_custom_path_witness:
  "get_path_of_user_config directories (Some ''/tmp/my_threeML'') [''/'', ''home'', ''user'']
     {[''/''], [''/'', ''home''], [''/'', ''home'', ''user'']} =
   Inr ([''/'', ''home'', ''user'', ''.config'', ''threeML''],
     {[''/''], [''/'', ''home''], [''/'', ''home'', ''user''],
      [''/'', ''home'', ''user'', ''.config''],
      [''/'', ''home'', ''user'', ''.config'', ''threeML'']}) \<and>
   Path ''/tmp/my_threeML'' = [''/'', ''tmp'', ''my_threeML'']"
  using user_config_ignores_custom_path [of directories "Some ''/tmp/my_threeML''"
      "[''/'', ''home'', ''user'']" "{[''/''], [''/'', ''home''], [''/'', ''home'', ''user'']}"]
  by (simp add: get_path_of_user_config_def directories_def path_div_def Path_def Let_def
      insert_commute)

section \<open>Time bins: the fixed-width binner and the validation of the arguments\<close>

lemma fixed_width_bins_closed_form:
  "0 < dt \<Longrightarrow>
   fixed_width_bins start stop dt =
     map (\<lambda>i. \<lparr>bin_start = start + of_nat i * dt, bin_stop = start + of_nat (Suc i) * dt\<rparr>)
       [0..<nat \<lfloor>(stop - start) / dt\<rfloor>]"
proof (induction start stop dt rule: fixed_width_bins.induct)
  case (1 start stop dt)
  show ?case
  proof (cases "start + dt \<le> stop")
    case True
    define n where "n = nat \<lfloor>(stop - (start + dt)) / dt\<rfloor>"
    from True "1.prems" have q: "(stop - start) / dt = (stop - (start + dt)) / dt + 1"
      by (simp add: field_simps)
    from True "1.prems" have "0 \<le> (stop - (start + dt)) / dt"
      by simp
    then have "0 \<le> \<lfloor>(stop - (start + dt)) / dt\<rfloor>"
      by simp
    moreover from q have "\<lfloor>(stop - start) / dt\<rfloor> = \<lfloor>(stop - (start + dt)) / dt\<rfloor> + 1"
      by simp
    ultimately have m: "nat \<lfloor>(stop - start) / dt\<rfloor> = Suc n"
      unfolding n_def by linarith
    have "fixed_width_bins start stop dt =
        \<lparr>bin_start = start, bin_stop = start + dt\<rparr> # fixed_width_bins (start + dt) stop dt"
      using True "1.prems" by (subst fixed_width_bins.simps) simp
    also have "fixed_width_bins (start + dt) stop dt =
        map (\<lambda>i. \<lparr>bin_start = start + dt + of_nat i * dt,
                   bin_stop = start + dt + of_nat (Suc i) * dt\<rparr>) [0..<n]"
      using "1.IH" True "1.prems" by (simp add: n_def)
    also have "\<dots> = map (\<lambda>i. \<lparr>bin_start = start + of_nat i * dt,
                   bin_stop = start + of_nat (Suc i) * dt\<rparr>) (map Suc [0..<n])"
      by (simp add: algebra_simps)
    finally show ?thesis
      unfolding m by (simp add: upt_conv_Cons map_Suc_upt del: upt_Suc)
  next
    case False
    with "1.prems" have "(stop - start) / dt < 1"
      by (simp add: field_simps)
    then have "\<lfloor>(stop - start) / dt\<rfloor> \<le> 0"
      by linarith
    then have "nat \<lfloor>(stop - start) / dt\<rfloor> = 0"
      by simp
    moreover from False have "fixed_width_bins start stop dt = []"
      by (subst fixed_width_bins.simps) simp
    ultimately show ?thesis by simp
  qed
qed

lemma create_time_bins_constant:
  "0 < dt \<Longrightarrow>
   create_time_bins b start stop ''constant'' [(''dt'', dt)] self =
     (None, self\<lparr>cached_bins := Some (fixed_width_bins start stop dt)\<rparr>)"
  by (simp add: create_time_bins_def required_parameter_def valid_parameter_def compute_bins_def)

text \<open>
  C1. For \<open>dt > 0\<close> and \<open>start \<le> stop\<close>, \<^verbatim>\<open>create_time_bins\<close> with the method
  \<^verbatim>\<open>constant\<close> succeeds and caches exactly \<open>\<lfloor>(stop - start) / dt\<rfloor>\<close> bins; each has width
  \<open>dt\<close>, each starts where the one before stops, the starts and the stops increase
  strictly, the first bin does not start before \<open>start\<close>, the last does not stop after
  \<open>stop\<close>, and what is left after the last bin is shorter than \<open>dt\<close>: a final partial bin
  is dropped. With \<open>start = 0\<close>, \<open>stop = 10\<close>, \<open>dt = 1\<close> there are 10 bins.
\<close>

theorem fixed_width_binning:
  assumes "0 < dt" and "start \<le> stop"
  shows "\<exists>bs. create_time_bins b start stop ''constant'' [(''dt'', dt)] self =
            (None, self\<lparr>cached_bins := Some bs\<rparr>) \<and>
          bs = fixed_width_bins start stop dt \<and>
          int (length bs) = \<lfloor>(stop - start) / dt\<rfloor> \<and>
          (\<forall>i<length bs. bin_stop (bs ! i) - bin_start (bs ! i) = dt \<and>
             bin_start (bs ! i) < bin_stop (bs ! i)) \<and>
          (\<forall>i. Suc i < length bs \<longrightarrow> bin_stop (bs ! i) = bin_start (bs ! Suc i)) \<and>
          sorted_wrt (<) (map bin_start bs) \<and> sorted_wrt (<) (map bin_stop bs) \<and>
          (bs \<noteq> [] \<longrightarrow> start \<le> bin_start (hd bs) \<and> bin_stop (last bs) \<le> stop \<and>
             stop - bin_stop (last bs) < dt)"
proof -
  define n where "n = nat \<lfloor>(stop - start) / dt\<rfloor>"
  define bs where "bs = fixed_width_bins start stop dt"
  have bs: "bs = map (\<lambda>i. \<lparr>bin_start = start + of_nat i * dt,
      bin_stop = start + of_nat (Suc i) * dt\<rparr>) [0..<n]"
    unfolding bs_def n_def using assms(1) by (rule fixed_width_bins_closed_form)
  from assms have "0 \<le> (stop - start) / dt"
    by simp
  then have nn: "0 \<le> \<lfloor>(stop - start) / dt\<rfloor>"
    by simp
  then have len: "int (length bs) = \<lfloor>(stop - start) / dt\<rfloor>"
    by (simp add: bs n_def)
  have width: "\<forall>i<length bs. bin_stop (bs ! i) - bin_start (bs ! i) = dt \<and>
      bin_start (bs ! i) < bin_stop (bs ! i)"
    using assms(1) by (simp add: bs algebra_simps)
  have adj: "\<forall>i. Suc i < length bs \<longrightarrow> bin_stop (bs ! i) = bin_start (bs ! Suc i)"
    by (simp add: bs)
  have s1: "sorted_wrt (<) (map bin_start bs)"
    using assms(1) by (simp add: bs sorted_wrt_map sorted_wrt_iff_nth_less)
  have s2: "sorted_wrt (<) (map bin_stop bs)"
    using assms(1) by (simp add: bs sorted_wrt_map sorted_wrt_iff_nth_less)
  have ends: "start \<le> bin_start (hd bs) \<and> bin_stop (last bs) \<le> stop \<and>
      stop - bin_stop (last bs) < dt" if "bs \<noteq> []"
  proof -
    from that have pos: "0 < n" by (simp add: bs)
    then have h: "bin_start (hd bs) = start"
      by (simp add: bs hd_map hd_upt)
    from pos have l: "bin_stop (last bs) = start + of_nat n * dt"
      by (simp add: bs last_map)
    have "of_nat n = (of_int \<lfloor>(stop - start) / dt\<rfloor> :: rat)"
      using nn by (simp add: n_def)
    then have le: "(of_nat n :: rat) \<le> (stop - start) / dt"
      and gt: "(stop - start) / dt < of_nat n + 1"
      by linarith+
    from le assms(1) have "of_nat n * dt \<le> stop - start"
      by (simp add: field_simps)
    moreover from gt assms(1) have "stop - start < (of_nat n + 1) * dt"
      by (simp add: field_simps)
    ultimately show ?thesis
      by (simp add: h l algebra_simps)
  qed
  from create_time_bins_constant [OF assms(1)] len width adj s1 s2 ends
  show ?thesis unfolding bs_def by blast
qed

theorem fixed_width_binning_witness:
  "(0::rat) < 1 \<and> (0::rat) \<le> 10 \<and>
   create_time_bins
     \<lparr>by_significance = (\<lambda>start stop sigma. Inl (RuntimeError ''no background fit'')),
        by_bayesblocks = (\<lambda>start stop p0. Inr [\<lparr>bin_start = start, bin_stop = stop\<rparr>])\<rparr> 0 10 ''constant'' [(''dt'', 1)] unbinned =
     (None, \<lparr>cached_bins = Some (fixed_width_bins 0 10 1)\<rparr>) \<and>
   int (length (fixed_width_bins 0 10 1)) = 10 \<and>
   (0::rat) < 3 \<and> int (length (fixed_width_bins 0 10 3)) = 3"
  using fixed_width_binning [of 1 0 10
      "\<lparr>by_significance = (\<lambda>start stop sigma. Inl (RuntimeError ''no background fit'')),
        by_bayesblocks = (\<lambda>start stop p0. Inr [\<lparr>bin_start = start, bin_stop = stop\<rparr>])\<rparr>" unbinned]
    fixed_width_binning [of 3 0 10
      "\<lparr>by_significance = (\<lambda>start stop sigma. Inl (RuntimeError ''no background fit'')),
        by_bayesblocks = (\<lambda>start stop p0. Inr [\<lparr>bin_start = start, bin_stop = stop\<rparr>])\<rparr>" unbinned]
  by (simp add: unbinned_def floor_eq_iff)

text \<open>
  C2. A call of \<^verbatim>\<open>create_time_bins\<close> whose method is none of \<^verbatim>\<open>constant\<close>,
  \<^verbatim>\<open>significance\<close>, \<^verbatim>\<open>bayesblocks\<close>, or whose method is one of them and whose keyword
  arguments lack the parameter it requires (\<^verbatim>\<open>dt\<close>, \<^verbatim>\<open>sigma\<close>, \<^verbatim>\<open>p0\<close>), raises a
  \<^verbatim>\<open>ConfigurationError\<close>, of the class \<^verbatim>\<open>RuntimeError\<close>; the outcome is the same whatever
  the binners would compute, and the instance, with the bins it had cached, is left as it
  was.
\<close>

theorem create_time_bins_rejects:
  assumes "method \<notin> {''constant'', ''significance'', ''bayesblocks''} \<or>
           method = ''constant'' \<and> ''dt'' \<notin> fst ` set method_params \<or>
           method = ''significance'' \<and> ''sigma'' \<notin> fst ` set method_params \<or>
           method = ''bayesblocks'' \<and> ''p0'' \<notin> fst ` set method_params"
  shows "\<exists>msg. (\<forall>b. create_time_bins b start stop method method_params self =
                   (Some (ConfigurationError msg), self)) \<and>
               builtin_class (ConfigurationError msg) = ''RuntimeError''"
proof (cases "required_parameter method")
  case None
  then show ?thesis
    by (simp add: create_time_bins_def)
next
  case (Some p)
  with assms have "p \<notin> fst ` set method_params"
    by (auto simp add: required_parameter_def split: if_splits)
  then have "map_of method_params p = None"
    by (simp add: map_of_eq_None_iff)
  with Some show ?thesis
    by (cases "filter (\<lambda>k. k \<noteq> p) (map fst method_params)")
      (simp_all add: create_time_bins_def)
qed

theorem create_time_bins_rejects_witness:
  "''dt'' \<notin> fst ` set [(''p0'', 1 / 10 :: rat)] \<and>
   create_time_bins
     \<lparr>by_significance = (\<lambda>start stop sigma. Inl (RuntimeError ''no background fit'')),
        by_bayesblocks = (\<lambda>start stop p0. Inr [\<lparr>bin_start = start, bin_stop = stop\<rparr>])\<rparr> 0 10 ''constant'' [(''p0'', 1 / 10)]
     \<lparr>cached_bins = Some [\<lparr>bin_start = 0, bin_stop = 1\<rparr>]\<rparr> =
     (Some (ConfigurationError ''p0''),
      \<lparr>cached_bins = Some [\<lparr>bin_start = 0, bin_stop = 1\<rparr>]\<rparr>) \<and>
   ''not_a_method'' \<notin> {''constant'', ''significance'', ''bayesblocks''} \<and>
   create_time_bins
     \<lparr>by_significance = (\<lambda>start stop sigma. Inl (RuntimeError ''no background fit'')),
        by_bayesblocks = (\<lambda>start stop p0. Inr [\<lparr>bin_start = start, bin_stop = stop\<rparr>])\<rparr> 0 10 ''not_a_method'' []
     \<lparr>cached_bins = Some [\<lparr>bin_start = 0, bin_stop = 1\<rparr>]\<rparr> =
     (Some (ConfigurationError ''not_a_method''),
      \<lparr>cached_bins = Some [\<lparr>bin_start = 0, bin_stop = 1\<rparr>]\<rparr>)"
  using create_time_bins_rejects [of "''constant''" "[(''p0'', 1 / 10)]" 0 10
      "\<lparr>cached_bins = Some [\<lparr>bin_start = 0, bin_stop = 1\<rparr>]\<rparr>"]
    create_time_bins_rejects [of "''not_a_method''" "[]" 0 10
      "\<lparr>cached_bins = Some [\<lparr>bin_start = 0, bin_stop = 1\<rparr>]\<rparr>"]
  by (simp add: create_time_bins_def required_parameter_def)

lemma create_time_bins_failed:
  "create_time_bins b start stop method method_params self = (Some e, self') \<Longrightarrow> self' = self"
  by (auto simp add: create_time_bins_def split: option.splits list.splits if_splits sum.splits)

lemma create_time_bins_calls_failed:
  "list_all (\<lambda>outcome. outcome \<noteq> None) (fst (create_time_bins_calls b calls self)) \<Longrightarrow>
   snd (create_time_bins_calls b calls self) = self"
proof (induction calls arbitrary: self)
  case Nil
  then show ?case by simp
next
  case (Cons call calls)
  obtain start stop meth params where call: "call = (start, stop, meth, params)"
    by (cases call)
  obtain outcome self' where c:
    "create_time_bins b start stop meth params self = (outcome, self')"
    by (cases "create_time_bins b start stop meth params self")
  obtain outcomes self'' where r: "create_time_bins_calls b calls self' = (outcomes, self'')"
    by (cases "create_time_bins_calls b calls self'")
  from Cons.prems have "outcome \<noteq> None"
    and rest: "list_all (\<lambda>outcome. outcome \<noteq> None) outcomes"
    by (simp_all add: call c r)
  then have "self' = self"
    using c create_time_bins_failed by blast
  moreover from Cons.IH [of self'] rest r have "self'' = self'"
    by simp
  moreover have "snd (create_time_bins_calls b (call # calls) self) = self''"
    by (simp add: call c r)
  ultimately show ?case
    by simp
qed

text \<open>
  C4. On an instance on which no call of \<^verbatim>\<open>create_time_bins\<close> has succeeded yet (every
  call made so far raised), reading \<^verbatim>\<open>bins\<close> raises a \<^verbatim>\<open>NotComputedError\<close>, of the
  class \<^verbatim>\<open>AttributeError\<close>, and so does reading \<^verbatim>\<open>text_bins\<close>.
\<close>

theorem bins_not_computed:
  assumes "list_all (\<lambda>outcome. outcome \<noteq> None) (fst (create_time_bins_calls b calls unbinned))"
  shows "(\<exists>msg. bins (snd (create_time_bins_calls b calls unbinned)) = Inl (NotComputedError msg)) \<and>
         (\<exists>msg. text_bins render (snd (create_time_bins_calls b calls unbinned)) =
                  Inl (NotComputedError msg)) \<and>
         (\<forall>msg. builtin_class (NotComputedError msg) = ''AttributeError'')"
  using create_time_bins_calls_failed [OF assms]
  by (simp add: bins_def text_bins_def unbinned_def)


theorem bins_not_computed_witness:
  "list_all (\<lambda>outcome. outcome \<noteq> None)
     (fst (create_time_bins_calls
       \<lparr>by_significance = (\<lambda>start stop sigma. Inl (RuntimeError ''no background fit'')),
        by_bayesblocks = (\<lambda>start stop p0. Inr [\<lparr>bin_start = start, bin_stop = stop\<rparr>])\<rparr>
       [(0, 10, ''constant'', []), (0, 10, ''significance'', []),
        (0, 10, ''constant'', [(''p0'', 1 / 10)]), (0, 10, ''significance'', [(''dt'', 1)]),
        (0, 10, ''not_a_method'', [])] unbinned)) \<and>
   bins (snd (create_time_bins_calls
       \<lparr>by_significance = (\<lambda>start stop sigma. Inl (RuntimeError ''no background fit'')),
        by_bayesblocks = (\<lambda>start stop p0. Inr [\<lparr>bin_start = start, bin_stop = stop\<rparr>])\<rparr>
       [(0, 10, ''constant'', []), (0, 10, ''significance'', []),
        (0, 10, ''constant'', [(''p0'', 1 / 10)]), (0, 10, ''significance'', [(''dt'', 1)]),
        (0, 10, ''not_a_method'', [])] unbinned)) = Inl (NotComputedError ''bins'') \<and>
   bins unbinned = Inl (NotComputedError ''bins'') \<and>
   text_bins (\<lambda>b. ''bin'') unbinned = Inl (NotComputedError ''text_bins'')"
proof -
  have h: "list_all (\<lambda>outcome. outcome \<noteq> None)
     (fst (create_time_bins_calls
       \<lparr>by_significance = (\<lambda>start stop sigma. Inl (RuntimeError ''no background fit'')),
        by_bayesblocks = (\<lambda>start stop p0. Inr [\<lparr>bin_start = start, bin_stop = stop\<rparr>])\<rparr>
       [(0, 10, ''constant'', []), (0, 10, ''significance'', []),
        (0, 10, ''constant'', [(''p0'', 1 / 10)]), (0, 10, ''significance'', [(''dt'', 1)]),
        (0, 10, ''not_a_method'', [])] unbinned))"
    by (simp add: create_time_bins_def required_parameter_def)
  from bins_not_computed [OF h, of "\<lambda>b. ''bin''"] h
    bins_not_computed [of "\<lparr>by_significance = (\<lambda>start stop sigma. Inl (RuntimeError ''no background fit'')),
        by_bayesblocks = (\<lambda>start stop p0. Inr [\<lparr>bin_start = start, bin_stop = stop\<rparr>])\<rparr>" "[]" "\<lambda>b. ''bin''"]
  show ?thesis
    by (simp add: create_time_bins_def required_parameter_def bins_def text_bins_def
        unbinned_def)
qed

end
